theory Spec2Isabelle
  imports
    Main
    "HOL-Library.Word"
    "HOL-Library.Char_ord"
    "HOL-Library.List_Lexorder"
    "HOL-Library.Product_Lexorder"
    "HOL-Library.Multiset"
begin

unbundle bit_operations_syntax

section \<open>Role permission bit masks (frontend, permissions-management.tsx)\<close>

text \<open>
  The permission flags are JavaScript numbers combined with the bitwise operators
  \<^verbatim>\<open>|\<close> and \<^verbatim>\<open>&\<close>, which act on 32-bit integers; they are modelled as 32-bit words.
\<close>

type_synonym permission = "32 word"

definition PERMISSION_READ :: permission where
  "PERMISSION_READ = 1"

definition PERMISSION_WRITE :: permission where
  "PERMISSION_WRITE = 2"

definition PERMISSION_ADMIN :: permission where
  "PERMISSION_ADMIN = 4"

definition PERMISSION_DELETE :: permission where
  "PERMISSION_DELETE = 8"

definition PERMISSION_USER_MANAGE :: permission where
  "PERMISSION_USER_MANAGE = 16"

definition PERMISSIONS_VIEWER :: permission where
  "PERMISSIONS_VIEWER = PERMISSION_READ"

definition PERMISSIONS_USER :: permission where
  "PERMISSIONS_USER = PERMISSION_READ OR PERMISSION_WRITE"

definition PERMISSIONS_ADMIN :: permission where
  "PERMISSIONS_ADMIN =
     PERMISSION_READ OR PERMISSION_WRITE OR PERMISSION_ADMIN OR PERMISSION_DELETE
       OR PERMISSION_USER_MANAGE"

text \<open>\<^verbatim>\<open>ROLE_PERMISSIONS\<close>: a record from role name to mask; other names are undefined.\<close>

definition ROLE_PERMISSIONS :: "string \<rightharpoonup> permission" where
  "ROLE_PERMISSIONS =
     [''viewer'' \<mapsto> PERMISSIONS_VIEWER, ''user'' \<mapsto> PERMISSIONS_USER,
      ''admin'' \<mapsto> PERMISSIONS_ADMIN]"


section \<open>Errors of the backend (Python)\<close>

text \<open>
  Every \<^verbatim>\<open>raise\<close> of the backend snippets is a value: an \<^verbatim>\<open>HTTPException\<close> carries its
  status code and detail; \<^verbatim>\<open>ValueError\<close> is what Python raises when a sequence is unpacked
  into the wrong number of targets; \<^verbatim>\<open>SSLError\<close> stands for what the \<^verbatim>\<open>ssl\<close> module raises
  when a certificate file cannot be loaded, \<^verbatim>\<open>OSError\<close> for what the operating system
  refuses when a file is looked up.
\<close>

datatype error =
    HTTPException nat string
  | ValueError string
  | SSLError string
  | OSError string

section \<open>State-based provider routing (guide, Pattern 3)\<close>

text \<open>The separator of \<^verbatim>\<open>f"{provider_id}:{state}"\<close> and of \<^verbatim>\<open>state.split(":", 1)\<close>.\<close>

definition separator :: char where
  "separator = CHR '':''"

text \<open>
  Python's \<^verbatim>\<open>s.split(sep, 1)\<close> for a one-character separator: at most one split, at the
  first occurrence; a string without the separator comes back whole, as the only element.
\<close>

definition split_once :: "char \<Rightarrow> string \<Rightarrow> string list" where
  "split_once sep s =
     (if sep \<in> set s
      then [takeWhile (\<lambda>c. c \<noteq> sep) s, tl (dropWhile (\<lambda>c. c \<noteq> sep) s)]
      else [s])"

text \<open>Python's \<^verbatim>\<open>a, b = xs\<close>: exactly two values, \<^verbatim>\<open>ValueError\<close> otherwise.\<close>

definition unpack_pair :: "'a list \<Rightarrow> error + ('a \<times> 'a)" where
  "unpack_pair xs =
     (case xs of
        [a, b] \<Rightarrow> Inr (a, b)
      | [] \<Rightarrow> Inl (ValueError ''not enough values to unpack (expected 2, got 0)'')
      | [a] \<Rightarrow> Inl (ValueError ''not enough values to unpack (expected 2, got 1)'')
      | _ \<Rightarrow> Inl (ValueError ''too many values to unpack (expected 2)''))"

text \<open>
  \<^verbatim>\<open>state_with_provider = f"{provider_id}:{state}"\<close>, where \<^verbatim>\<open>state\<close> is the value of
  \<^verbatim>\<open>secrets.token_urlsafe(32)\<close>: the random token is an argument of the model.
\<close>

definition issue :: "string \<Rightarrow> string \<Rightarrow> string" where
  "issue provider_id random_token = provider_id @ separator # random_token"

text \<open>\<^verbatim>\<open>state_provider, _ = callback_data.state.split(":", 1)\<close>\<close>

definition parse :: "string \<Rightarrow> error + (string \<times> string)" where
  "parse state = unpack_pair (split_once separator state)"

text \<open>
  The validation of the callback: skipped when the state is missing or empty
  (\<^verbatim>\<open>if callback_data.state:\<close>), otherwise the state is split and its provider compared
  with the provider of the route.
\<close>

definition validate_state :: "string \<Rightarrow> string option \<Rightarrow> error + unit" where
  "validate_state provider_id state =
     (case state of
        None \<Rightarrow> Inr ()
      | Some s \<Rightarrow>
          if s = [] then Inr ()
          else (case parse s of
                  Inl e \<Rightarrow> Inl e
                | Inr (state_provider, _) \<Rightarrow>
                    if state_provider \<noteq> provider_id
                    then Inl (HTTPException 400 ''Provider mismatch'')
                    else Inr ()))"

text \<open>
  Modelled from the spec: the callback handler itself (\<^verbatim>\<open>doc/oidc/backend/oidc.py\<close>) is not
  among the sources; only its state check above is, as a snippet of the guide. Following
  section 4.4 of the specification, the handler first validates the state against the
  provider of the route and only then runs the remaining steps (code exchange, token
  verification, claim mapping, provisioning, session issue), which are the argument
  \<open>steps\<close> here: any function of the provider and the code.
\<close>

definition handleCallback ::
  "(string \<Rightarrow> string \<Rightarrow> error + 'cred) \<Rightarrow> string \<Rightarrow> string \<Rightarrow> string option \<Rightarrow> error + 'cred"
where
  "handleCallback steps provider_id code state =
     (case validate_state provider_id state of
        Inl e \<Rightarrow> Inl e
      | Inr _ \<Rightarrow> steps provider_id code)"

section \<open>Provider entries of the YAML configuration\<close>

text \<open>
  One provider of \<^verbatim>\<open>oidc_providers.yaml\<close>, as the dictionary that
  \<^verbatim>\<open>settings_manager.get_oidc_provider(provider_id)\<close> hands to the service: every key may
  be missing (\<open>None\<close>, what \<^verbatim>\<open>provider.get(key)\<close> returns then). The function
  \<^verbatim>\<open>get_oidc_provider\<close> itself is not among the sources and is an argument of the models.
\<close>

record provider =
  enabled :: "bool option"
  discovery_url :: "string option"
  client_id :: "string option"
  client_secret :: "string option"
  redirect_uri :: "string option"
  name :: "string option"
  description :: "string option"
  icon :: "string option"
  display_order :: "int option"
  ca_cert_path :: "string option"
  scopes :: "string list option"
  claim_mappings :: "(string \<rightharpoonup> string) option"
  auto_provision :: "bool option"
  default_role :: "string option"
  username_prefix :: "string option"

text \<open>Python's \<^verbatim>\<open>d.get(key, default)\<close>.\<close>

definition dict_get :: "('k \<rightharpoonup> 'v) \<Rightarrow> 'k \<Rightarrow> 'v \<Rightarrow> 'v" where
  "dict_get d k fallback = (case d k of None \<Rightarrow> fallback | Some v \<Rightarrow> v)"

section \<open>Per-provider SSL context (guide, Pattern 2)\<close>

text \<open>
  Paths are those of \<^verbatim>\<open>pathlib\<close> on POSIX: a root (empty for a relative path, one slash, or
  two slashes when the text starts with exactly two) and the parts after it. Parsing a
  text drops empty parts and the parts that are a single dot, so repeated slashes, a
  trailing slash and \<^verbatim>\<open>./\<close> disappear; a part of two dots stays.
\<close>

record posix_path =
  path_root :: string
  path_parts :: "string list"

text \<open>Python's \<^verbatim>\<open>s.split(sep)\<close> for a one-character separator: every occurrence splits.\<close>

fun split_all :: "char \<Rightarrow> string \<Rightarrow> string list" where
  "split_all sep [] = [[]]"
| "split_all sep (c # cs) =
     (if c = sep then [] # split_all sep cs
      else (case split_all sep cs of
              [] \<Rightarrow> [[c]]
            | w # ws \<Rightarrow> (c # w) # ws))"

text \<open>\<^verbatim>\<open>Path(text)\<close>\<close>

definition parse_path :: "string \<Rightarrow> posix_path" where
  "parse_path s =
     (let stripped = dropWhile (\<lambda>c. c = CHR ''/'') s;
          slashes = length s - length stripped
      in \<lparr>path_root = (if slashes = 0 then [] else if slashes = 2 then ''//'' else ''/''),
          path_parts = filter (\<lambda>x. x \<noteq> [] \<and> x \<noteq> ''.'') (split_all (CHR ''/'') stripped)\<rparr>)"

text \<open>\<^verbatim>\<open>Path.is_absolute()\<close> on POSIX: the path has a root.\<close>

definition is_absolute :: "posix_path \<Rightarrow> bool" where
  "is_absolute p \<longleftrightarrow> path_root p \<noteq> []"

text \<open>\<^verbatim>\<open>p / q\<close>: a rooted right operand replaces the left one, otherwise its parts are appended.\<close>

definition joinpath :: "posix_path \<Rightarrow> posix_path \<Rightarrow> posix_path" where
  "joinpath p q =
     (if path_root q \<noteq> [] then q
      else \<lparr>path_root = path_root p, path_parts = path_parts p @ path_parts q\<rparr>)"

text \<open>\<^verbatim>\<open>"/".join(parts)\<close>\<close>

fun join_parts :: "string list \<Rightarrow> string" where
  "join_parts [] = []"
| "join_parts [x] = x"
| "join_parts (x # y # ys) = x @ CHR ''/'' # join_parts (y # ys)"

text \<open>\<^verbatim>\<open>str(p)\<close>, as the f-string of the warning and \<^verbatim>\<open>cafile=str(ca_cert_file)\<close> take it.\<close>

definition path_str :: "posix_path \<Rightarrow> string" where
  "path_str p =
     (if path_root p \<noteq> [] then path_root p @ join_parts (path_parts p)
      else if path_parts p = [] then ''.''
      else join_parts (path_parts p))"

text \<open>
  An SSL context is the default context with the verify locations of one CA file loaded.
  The host is what the function reads from its surroundings: the directory
  \<^verbatim>\<open>Path(__file__).parent.parent\<close>; \<^verbatim>\<open>Path.exists()\<close>, which answers, or raises an
  \<^verbatim>\<open>OSError\<close> when the file status cannot be read for another reason than the file not
  being there (a name that is too long, a directory that may not be searched); and the
  loading of a CA file, which may raise.
\<close>

datatype ssl_context = SSLContext string

record host =
  base_dir :: posix_path
  file_exists :: "string \<Rightarrow> error + bool"
  load_verify_locations :: "string \<Rightarrow> error + ssl_context"

text \<open>The service object: its cache \<^verbatim>\<open>self._ssl_contexts\<close> and what it has logged as warnings.\<close>

record oidc_service =
  ssl_contexts :: "string \<rightharpoonup> ssl_context"
  warnings :: "string list"

text \<open>
  \<^verbatim>\<open>ca_cert_file = Path(ca_cert_path)\<close>, replaced by
  \<^verbatim>\<open>Path(__file__).parent.parent / ca_cert_path\<close> when it is not absolute.
\<close>

definition resolve_ca_cert :: "host \<Rightarrow> string \<Rightarrow> posix_path" where
  "resolve_ca_cert h path =
     (if \<not> is_absolute (parse_path path) then joinpath (base_dir h) (parse_path path)
      else parse_path path)"

text \<open>
  \<^verbatim>\<open>_get_ssl_context(self, provider_id)\<close>: the result is the returned optional context (or
  the exception raised by the existence check or while loading), paired with the service
  afterwards.
\<close>

definition get_ssl_context ::
  "host \<Rightarrow> (string \<Rightarrow> provider) \<Rightarrow> oidc_service \<Rightarrow> string
    \<Rightarrow> (error + ssl_context option) \<times> oidc_service"
where
  "get_ssl_context h get_oidc_provider self provider_id =
     (case ssl_contexts self provider_id of
        Some cached \<Rightarrow> (Inr (Some cached), self)
      | None \<Rightarrow>
          (case ca_cert_path (get_oidc_provider provider_id) of
             None \<Rightarrow> (Inr None, self)
           | Some path \<Rightarrow>
               if path = [] then (Inr None, self)
               else
                 let ca_cert_file = resolve_ca_cert h path in
                 (case file_exists h (path_str ca_cert_file) of
                    Inl e \<Rightarrow> (Inl e, self)
                  | Inr False \<Rightarrow>
                      (Inr None,
                       self\<lparr>warnings :=
                         warnings self @ [''CA cert not found: '' @ path_str ca_cert_file]\<rparr>)
                  | Inr True \<Rightarrow>
                      (case load_verify_locations h (path_str ca_cert_file) of
                         Inl e \<Rightarrow> (Inl e, self)
                       | Inr ssl_ctx \<Rightarrow>
                           (Inr (Some ssl_ctx),
                            self\<lparr>ssl_contexts := (ssl_contexts self)(provider_id \<mapsto> ssl_ctx)\<rparr>)))))"

section \<open>Provider-specific claim mapping (guide, Pattern 4)\<close>

text \<open>The dictionary \<^verbatim>\<open>extract_user_data\<close> returns.\<close>

record user_data =
  ud_username :: string
  ud_email :: "string option"
  ud_realname :: string
  ud_provider_id :: string

text \<open>\<^verbatim>\<open>mappings = provider.get("claim_mappings", {})\<close>\<close>

definition mappings_of :: "provider \<Rightarrow> (string \<rightharpoonup> string)" where
  "mappings_of p = (case claim_mappings p of None \<Rightarrow> Map.empty | Some m \<Rightarrow> m)"

text \<open>
  \<^verbatim>\<open>extract_user_data(self, provider_id, claims)\<close>. The claims are a dictionary of strings;
  \<^verbatim>\<open>not username\<close> holds for a missing claim and for an empty one.
\<close>

definition extract_user_data ::
  "(string \<Rightarrow> provider) \<Rightarrow> string \<Rightarrow> (string \<rightharpoonup> string) \<Rightarrow> error + user_data"
where
  "extract_user_data get_oidc_provider provider_id claims =
     (let mappings = mappings_of (get_oidc_provider provider_id);
          username_claim = dict_get mappings ''username'' ''preferred_username'';
          email_claim = dict_get mappings ''email'' ''email'';
          name_claim = dict_get mappings ''name'' ''name''
      in case claims username_claim of
           None \<Rightarrow>
             Inl (HTTPException 401
                    (''Username claim '' @ [CHR 0x27] @ username_claim @ [CHR 0x27]
                       @ '' not found in token''))
         | Some username \<Rightarrow>
             if username = []
             then Inl (HTTPException 401
                    (''Username claim '' @ [CHR 0x27] @ username_claim @ [CHR 0x27]
                       @ '' not found in token''))
             else Inr \<lparr>ud_username = username,
                       ud_email = claims email_claim,
                       ud_realname = dict_get claims name_claim username,
                       ud_provider_id = provider_id\<rparr>)"

section \<open>Provider registry\<close>

text \<open>
  The check of the guide's Pattern 1, written there for \<^verbatim>\<open>client_id\<close>: the value comes from the
  provider's own entry and nowhere else, and a missing or empty value raises an
  \<^verbatim>\<open>HTTPException\<close> whose detail names the provider and the key. The key is an argument.
\<close>

definition missing_detail :: "string \<Rightarrow> string \<Rightarrow> string" where
  "missing_detail provider_id key =
     ''Provider '' @ [CHR 0x27] @ provider_id @ [CHR 0x27] @ '' missing required ''
       @ [CHR 0x27] @ key @ [CHR 0x27]"

definition require_field :: "string \<Rightarrow> string \<Rightarrow> string option \<Rightarrow> error + string" where
  "require_field provider_id key v =
     (case v of
        None \<Rightarrow> Inl (HTTPException 500 (missing_detail provider_id key))
      | Some x \<Rightarrow>
          if x = [] then Inl (HTTPException 500 (missing_detail provider_id key)) else Inr x)"

text \<open>
  Modelled from the spec: the registry (\<^verbatim>\<open>settings_manager.py\<close>, with \<open>loadProviders\<close>,
  \<open>listEnabled\<close> and \<open>get\<close>) is not among the sources. \<open>ProviderConfig\<close> is section 3 of the
  specification: the identifier, the enabled flag, the display metadata, the four
  mandatory fields, and the optional fields with the defaults the guide lists.
\<close>

record ProviderConfig =
  cfg_identifier :: string
  cfg_enabled :: bool
  cfg_name :: string
  cfg_description :: string
  cfg_icon :: string
  cfg_display_order :: int
  cfg_discovery_url :: string
  cfg_client_id :: string
  cfg_client_secret :: string
  cfg_redirect_uri :: string
  cfg_scopes :: "string list"
  cfg_ca_cert_path :: "string option"
  cfg_username_claim :: string
  cfg_email_claim :: string
  cfg_name_claim :: string
  cfg_auto_provision :: bool
  cfg_default_role :: string
  cfg_username_prefix :: string

text \<open>
  Modelled from the spec: \<^verbatim>\<open>None\<close> or the given default for an optional key
  (section 4.1, "applies field defaults").
\<close>

definition or_default :: "'a option \<Rightarrow> 'a \<Rightarrow> 'a" where
  "or_default v d = (case v of None \<Rightarrow> d | Some x \<Rightarrow> x)"

text \<open>
  Modelled from the spec: the validation of one entry of the declarative source
  (section 4.1). The four mandatory fields are required with \<open>require_field\<close>, in the order
  of section 3; the first one missing is the error. A provider whose entry has no
  \<^verbatim>\<open>enabled\<close> key is not enabled.
\<close>

definition validate_provider :: "string \<Rightarrow> provider \<Rightarrow> error + ProviderConfig" where
  "validate_provider provider_id p =
     (case require_field provider_id ''discovery_url'' (discovery_url p) of
        Inl e \<Rightarrow> Inl e
      | Inr du \<Rightarrow>
     (case require_field provider_id ''client_id'' (client_id p) of
        Inl e \<Rightarrow> Inl e
      | Inr ci \<Rightarrow>
     (case require_field provider_id ''client_secret'' (client_secret p) of
        Inl e \<Rightarrow> Inl e
      | Inr cs \<Rightarrow>
     (case require_field provider_id ''redirect_uri'' (redirect_uri p) of
        Inl e \<Rightarrow> Inl e
      | Inr ru \<Rightarrow>
          Inr \<lparr>cfg_identifier = provider_id,
               cfg_enabled = or_default (enabled p) False,
               cfg_name = or_default (name p) provider_id,
               cfg_description = or_default (description p) [],
               cfg_icon = or_default (icon p) [],
               cfg_display_order = or_default (display_order p) 999,
               cfg_discovery_url = du,
               cfg_client_id = ci,
               cfg_client_secret = cs,
               cfg_redirect_uri = ru,
               cfg_scopes = or_default (scopes p) [''openid'', ''profile'', ''email''],
               cfg_ca_cert_path = ca_cert_path p,
               cfg_username_claim = dict_get (mappings_of p) ''username'' ''preferred_username'',
               cfg_email_claim = dict_get (mappings_of p) ''email'' ''email'',
               cfg_name_claim = dict_get (mappings_of p) ''name'' ''name'',
               cfg_auto_provision = or_default (auto_provision p) True,
               cfg_default_role = or_default (default_role p) ''user'',
               cfg_username_prefix = or_default (username_prefix p) []\<rparr>))))"

text \<open>
  Modelled from the spec: \<open>loadProviders\<close> (section 4.1). The source is the list of the
  entries by provider identifier, in the order of the document; the result is the errors
  of the entries that failed to load and the configurations of those that loaded. An
  entry that fails does not stop the loading of the others.
\<close>

fun loadProviders :: "(string \<times> provider) list \<Rightarrow> error list \<times> ProviderConfig list" where
  "loadProviders [] = ([], [])"
| "loadProviders ((provider_id, p) # rest) =
     (case loadProviders rest of
        (errors, configs) \<Rightarrow>
          (case validate_provider provider_id p of
             Inl e \<Rightarrow> (e # errors, configs)
           | Inr c \<Rightarrow> (errors, c # configs)))"

text \<open>
  Modelled from the spec: \<open>listEnabled\<close> (section 4.1), the enabled providers ordered by
  display order, then by identifier. Strings are compared character by character, by
  character code.
\<close>

definition listEnabled :: "ProviderConfig list \<Rightarrow> ProviderConfig list" where
  "listEnabled configs =
     sort_key (\<lambda>c. (cfg_display_order c, cfg_identifier c)) (filter cfg_enabled configs)"

text \<open>A mandatory field is missing when its key is absent or its value is empty.\<close>

definition missing :: "string option \<Rightarrow> bool" where
  "missing v \<longleftrightarrow> v = None \<or> v = Some []"

text \<open>The four mandatory fields of an entry, by key.\<close>

definition mandatory_fields :: "provider \<Rightarrow> (string \<times> string option) list" where
  "mandatory_fields p =
     [(''discovery_url'', discovery_url p), (''client_id'', client_id p),
      (''client_secret'', client_secret p), (''redirect_uri'', redirect_uri p)]"

section \<open>User provisioning\<close>

text \<open>
  Modelled from the spec: the errors of the registry and of the provisioning bridge
  (section 7) that no snippet of the guide raises.
\<close>

datatype flow_error = NotFound | ProvisioningDisabled

text \<open>
  Modelled from the spec: a local user of the user store, and the two lookup policies of
  section 4.5: by provider and username, or by username alone.
\<close>

record local_user =
  lu_username :: string
  lu_provider :: "string option"
  lu_role :: string
  lu_email :: "string option"
  lu_realname :: string

datatype lookup_policy = ByProviderAndUsername | ByUsername

definition user_matches :: "lookup_policy \<Rightarrow> string \<Rightarrow> string \<Rightarrow> local_user \<Rightarrow> bool" where
  "user_matches policy provider_id local_name u =
     (case policy of
        ByProviderAndUsername \<Rightarrow> lu_provider u = Some provider_id \<and> lu_username u = local_name
      | ByUsername \<Rightarrow> lu_username u = local_name)"

text \<open>
  Modelled from the spec: \<open>resolveUser\<close> (section 4.5;
  \<^verbatim>\<open>provision_or_get_user\<close> of the backend is not among the sources). The mapped identity is
  the result of \<open>extract_user_data\<close>; the local name is the mapped username with the
  provider's prefix. An existing user is returned as it is; a new one is created only when
  the provider provisions automatically. The result is paired with the user store
  afterwards.
\<close>

definition resolveUser ::
  "ProviderConfig list \<Rightarrow> lookup_policy \<Rightarrow> string \<Rightarrow> user_data \<Rightarrow> local_user list
    \<Rightarrow> (flow_error + local_user) \<times> local_user list"
where
  "resolveUser registry policy provider_id mapped store =
     (case find (\<lambda>c. cfg_identifier c = provider_id) registry of
        None \<Rightarrow> (Inl NotFound, store)
      | Some cfg \<Rightarrow>
          let local_name = cfg_username_prefix cfg @ ud_username mapped in
          (case find (user_matches policy provider_id local_name) store of
             Some existing \<Rightarrow> (Inr existing, store)
           | None \<Rightarrow>
               if cfg_auto_provision cfg
               then
                 let created = \<lparr>lu_username = local_name, lu_provider = Some provider_id,
                                lu_role = cfg_default_role cfg, lu_email = ud_email mapped,
                                lu_realname = ud_realname mapped\<rparr>
                 in (Inr created, store @ [created])
               else (Inl ProvisioningDisabled, store)))"

section \<open>Frontend authentication store (auth-store.ts)\<close>

text \<open>The interface \<^verbatim>\<open>User\<close>; optional members are options.\<close>

record User =
  user_id :: string
  user_username :: string
  user_email :: "string option"
  user_role :: "string option"
  user_permissions :: "int option"

text \<open>
  What \<^verbatim>\<open>JSON.parse\<close> can return, and what the \<^verbatim>\<open>user\<close> member of the store holds at run
  time: the store casts the parsed value to \<^verbatim>\<open>User\<close> without looking at it. An object is
  read as a \<^verbatim>\<open>User\<close>; numbers are integers here (every other number is truthy as well).
\<close>

datatype js_value =
    JNull
  | JBoolean bool
  | JNumber int
  | JString string
  | JObject User
  | JArray "js_value list"

text \<open>JavaScript's truthiness, which \<^verbatim>\<open>if (token && user)\<close> tests.\<close>

fun truthy :: "js_value \<Rightarrow> bool" where
  "truthy JNull = False"
| "truthy (JBoolean b) = b"
| "truthy (JNumber n) = (n \<noteq> 0)"
| "truthy (JString s) = (s \<noteq> [])"
| "truthy (JObject u) = True"
| "truthy (JArray vs) = True"

text \<open>The data members of \<^verbatim>\<open>AuthState\<close>; \<^verbatim>\<open>null\<close> is \<open>None\<close> for the token and \<open>JNull\<close> for the user.\<close>

record AuthState =
  token :: "string option"
  user :: js_value
  isAuthenticated :: bool

text \<open>
  The browser side: whether \<^verbatim>\<open>window\<close> is defined, the cookie jar behind \<^verbatim>\<open>js-cookie\<close>, and
  \<^verbatim>\<open>localStorage\<close>.
\<close>

record browser =
  window_defined :: bool
  cookies :: "string \<rightharpoonup> string"
  localStorage :: "string \<rightharpoonup> string"

text \<open>
  The two functions of the global \<^verbatim>\<open>JSON\<close> object the store calls: \<^verbatim>\<open>JSON.parse\<close>, which
  throws (\<open>None\<close>) on text that is not JSON, and \<^verbatim>\<open>JSON.stringify\<close> on a user.
\<close>

record json_lib =
  JSON_parse :: "string \<Rightarrow> js_value option"
  JSON_stringify :: "User \<Rightarrow> string"

definition Cookies_get :: "browser \<Rightarrow> string \<Rightarrow> string option" where
  "Cookies_get b key = cookies b key"

definition Cookies_set :: "browser \<Rightarrow> string \<Rightarrow> string \<Rightarrow> browser" where
  "Cookies_set b key v = b\<lparr>cookies := (cookies b)(key \<mapsto> v)\<rparr>"

definition Cookies_remove :: "browser \<Rightarrow> string \<Rightarrow> browser" where
  "Cookies_remove b key = b\<lparr>cookies := (cookies b)(key := None)\<rparr>"

text \<open>\<^verbatim>\<open>Cookies.get('cockpit_auth_token') || null\<close>: an empty cookie counts as none.\<close>

definition getCookieToken :: "browser \<Rightarrow> string option" where
  "getCookieToken b =
     (if \<not> window_defined b then None
      else (case Cookies_get b ''cockpit_auth_token'' of
              None \<Rightarrow> None
            | Some t \<Rightarrow> if t = [] then None else Some t))"

text \<open>The parsed user cookie; \<^verbatim>\<open>null\<close> without a window, without a cookie, or when parsing throws.\<close>

definition getCookieUser :: "json_lib \<Rightarrow> browser \<Rightarrow> js_value" where
  "getCookieUser J b =
     (if \<not> window_defined b then JNull
      else (case Cookies_get b ''cockpit_user_info'' of
              None \<Rightarrow> JNull
            | Some userCookie \<Rightarrow>
                if userCookie = [] then JNull
                else (case JSON_parse J userCookie of
                        None \<Rightarrow> JNull
                      | Some v \<Rightarrow> v)))"

definition setCookieToken :: "browser \<Rightarrow> string \<Rightarrow> browser" where
  "setCookieToken b t = Cookies_set b ''cockpit_auth_token'' t"

definition setCookieUser :: "json_lib \<Rightarrow> browser \<Rightarrow> User \<Rightarrow> browser" where
  "setCookieUser J b u = Cookies_set b ''cockpit_user_info'' (JSON_stringify J u)"

definition removeCookies :: "browser \<Rightarrow> browser" where
  "removeCookies b =
     (let b' = Cookies_remove (Cookies_remove b ''cockpit_auth_token'') ''cockpit_user_info''
      in if window_defined b'
         then b'\<lparr>localStorage :=
                (localStorage b')(''auth_token'' := None, ''user_info'' := None,
                                   ''cockpit-auth'' := None)\<rparr>
         else b')"

text \<open>The store as \<^verbatim>\<open>create\<close> builds it.\<close>

definition initial_state :: AuthState where
  "initial_state = \<lparr>token = None, user = JNull, isAuthenticated = False\<rparr>"

text \<open>
  The four operations, on the browser and the store together; \<^verbatim>\<open>set\<close> of zustand merges
  the given members into the state.
\<close>

definition login :: "json_lib \<Rightarrow> string \<Rightarrow> User \<Rightarrow> browser \<times> AuthState \<Rightarrow> browser \<times> AuthState" where
  "login J t u w =
     (case w of (b, s) \<Rightarrow>
        (setCookieUser J (setCookieToken b t) u,
         s\<lparr>token := Some t, user := JObject u, isAuthenticated := True\<rparr>))"

definition logout :: "browser \<times> AuthState \<Rightarrow> browser \<times> AuthState" where
  "logout w =
     (case w of (b, s) \<Rightarrow>
        (removeCookies b, s\<lparr>token := None, user := JNull, isAuthenticated := False\<rparr>))"

definition setUser :: "json_lib \<Rightarrow> User \<Rightarrow> browser \<times> AuthState \<Rightarrow> browser \<times> AuthState" where
  "setUser J u w = (case w of (b, s) \<Rightarrow> (setCookieUser J b u, s\<lparr>user := JObject u\<rparr>))"

definition hydrate :: "json_lib \<Rightarrow> browser \<times> AuthState \<Rightarrow> browser \<times> AuthState" where
  "hydrate J w =
     (case w of (b, s) \<Rightarrow>
        (case getCookieToken b of
           Some t \<Rightarrow>
             if truthy (getCookieUser J b)
             then (b, s\<lparr>token := Some t, user := getCookieUser J b, isAuthenticated := True\<rparr>)
             else (removeCookies b,
                   s\<lparr>token := None, user := JNull, isAuthenticated := False\<rparr>)
         | None \<Rightarrow>
             (removeCookies b, s\<lparr>token := None, user := JNull, isAuthenticated := False\<rparr>)))"

text \<open>Any sequence of calls of the store's operations.\<close>

datatype action = Login string User | Logout | SetUser User | Hydrate

fun step :: "json_lib \<Rightarrow> action \<Rightarrow> browser \<times> AuthState \<Rightarrow> browser \<times> AuthState" where
  "step J (Login t u) w = login J t u w"
| "step J Logout w = logout w"
| "step J (SetUser u) w = setUser J u w"
| "step J Hydrate w = hydrate J w"

fun run :: "json_lib \<Rightarrow> action list \<Rightarrow> browser \<times> AuthState \<Rightarrow> browser \<times> AuthState" where
  "run J [] w = w"
| "run J (a # as) w = run J as (step J a w)"

text \<open>
  The invariant of the store: authenticated exactly when there is a token, and then there
  is a user as well.
\<close>

definition auth_invariant :: "AuthState \<Rightarrow> bool" where
  "auth_invariant s \<longleftrightarrow>
     (isAuthenticated s \<longleftrightarrow> token s \<noteq> None) \<and> (isAuthenticated s \<longrightarrow> user s \<noteq> JNull)"

text \<open>An example user, a stand-in for the \<^verbatim>\<open>JSON\<close> object that knows this user's text, and a browser.\<close>

definition ann :: User where
  "ann = \<lparr>user_id = ''7'', user_username = ''ann'', user_email = None,
          user_role = Some ''admin'', user_permissions = Some 31\<rparr>"

definition example_json :: json_lib where
  "example_json =
     \<lparr>JSON_parse = (\<lambda>s. if s = ''{id:7,username:ann}'' then Some (JObject ann)
                          else if s = ''null'' then Some JNull
                          else None),
      JSON_stringify = (\<lambda>u. ''{id:'' @ user_id u @ '',username:'' @ user_username u @ ''}'')\<rparr>"

definition empty_browser :: browser where
  "empty_browser = \<lparr>window_defined = True, cookies = Map.empty, localStorage = Map.empty\<rparr>"

definition session_browser :: browser where
  "session_browser =
     empty_browser\<lparr>cookies := [''cockpit_auth_token'' \<mapsto> ''abc'',
                                ''cockpit_user_info'' \<mapsto> ''{id:7,username:ann}'']\<rparr>"

definition broken_browser :: browser where
  "broken_browser =
     empty_browser\<lparr>cookies := [''cockpit_auth_token'' \<mapsto> ''abc'',
                                ''cockpit_user_info'' \<mapsto> ''{id:7,''],
                    localStorage := [''auth_token'' \<mapsto> ''old'']\<rparr>"

section \<open>Example configuration\<close>

text \<open>
  A provider entry with no key at all, and the two providers of the guide's claim-mapping
  scenario: alpha maps the username to the claim \<^verbatim>\<open>sub\<close>, beta has no mapping; corp and lab
  name CA files that are not there, lab with a path that is not normalised; vault names a
  CA file in a directory the host may not search.
\<close>

definition empty_provider :: provider where
  "empty_provider =
     \<lparr>enabled = None, discovery_url = None, client_id = None, client_secret = None,
      redirect_uri = None, name = None, description = None, icon = None,
      display_order = None, ca_cert_path = None, scopes = None, claim_mappings = None,
      auto_provision = None, default_role = None, username_prefix = None\<rparr>"

definition example_providers :: "string \<Rightarrow> provider" where
  "example_providers i =
     (if i = ''alpha'' then empty_provider\<lparr>claim_mappings := Some [''username'' \<mapsto> ''sub'']\<rparr>
      else if i = ''corp'' then empty_provider\<lparr>ca_cert_path := Some ''config/certs/missing.pem''\<rparr>
      else if i = ''lab'' then empty_provider\<lparr>ca_cert_path := Some ''./config//certs/lab.pem''\<rparr>
      else if i = ''vault'' then empty_provider\<lparr>ca_cert_path := Some ''/vault/ca.pem''\<rparr>
      else empty_provider)"

definition example_claims :: "string \<rightharpoonup> string" where
  "example_claims = [''sub'' \<mapsto> ''u1'', ''preferred_username'' \<mapsto> ''u2'']"

definition example_host :: host where
  "example_host =
     \<lparr>base_dir = parse_path ''/app'',
      file_exists = (\<lambda>f. if f = ''/vault/ca.pem'' then Inl (OSError ''Permission denied'')
                         else Inr (f = ''/app/config/certs/ca.cert.pem'')),
      load_verify_locations = (\<lambda>f. Inr (SSLContext f))\<rparr>"

definition fresh_service :: oidc_service where
  "fresh_service = \<lparr>ssl_contexts = Map.empty, warnings = []\<rparr>"

text \<open>
  A declarative source with five providers: zeta, alpha and beta are complete and enabled
  (beta does not provision users), nosecret is enabled but has no client secret, off is
  complete but disabled. With it, a user store holding one user of another provider.
\<close>

definition complete_provider :: provider where
  "complete_provider =
     empty_provider\<lparr>enabled := Some True,
       discovery_url := Some ''https://idp.example/.well-known/openid-configuration'',
       client_id := Some ''app'', client_secret := Some ''s3cret'',
       redirect_uri := Some ''https://app.example/callback''\<rparr>"

definition example_source :: "(string \<times> provider) list" where
  "example_source =
     [(''zeta'', complete_provider\<lparr>display_order := Some 1\<rparr>),
      (''nosecret'', complete_provider\<lparr>client_secret := None\<rparr>),
      (''beta'', complete_provider\<lparr>display_order := Some 2, auto_provision := Some False\<rparr>),
      (''alpha'', complete_provider\<lparr>display_order := Some 2, username_prefix := Some ''sso_''\<rparr>),
      (''off'', complete_provider\<lparr>enabled := Some False, display_order := Some 0\<rparr>)]"

definition example_store :: "local_user list" where
  "example_store =
     [\<lparr>lu_username = ''jdoe'', lu_provider = Some ''zeta'', lu_role = ''admin'',
       lu_email = None, lu_realname = ''J. Doe''\<rparr>]"

definition example_identity :: user_data where
  "example_identity =
     \<lparr>ud_username = ''kim'', ud_email = None, ud_realname = ''Kim'', ud_provider_id = ''beta''\<rparr>"

section \<open>Properties of the role masks\<close>

lemma viewer_mask_value: "PERMISSIONS_VIEWER = 1"
  by (simp add: PERMISSIONS_VIEWER_def PERMISSION_READ_def)

lemma user_mask_value: "PERMISSIONS_USER = 3"
  by (simp add: PERMISSIONS_USER_def PERMISSION_READ_def PERMISSION_WRITE_def)

lemma admin_mask_value: "PERMISSIONS_ADMIN = 31"
  by (simp add: PERMISSIONS_ADMIN_def PERMISSION_READ_def PERMISSION_WRITE_def
      PERMISSION_ADMIN_def PERMISSION_DELETE_def PERMISSION_USER_MANAGE_def)

lemma mask_subset_bits:
  fixes a b :: permission
  assumes "a AND b = a"
  shows "bit a n \<longrightarrow> bit b n"
proof
  assume "bit a n"
  with assms have "bit (a AND b) n" by simp
  then show "bit b n" by (simp add: bit_and_iff)
qed

text \<open>
  Claim C10. The role masks are nested: the viewer mask AND the user mask is the viewer
  mask, the user mask AND the admin mask is the user mask; hence every bit of the viewer
  role is a bit of the user role, and every bit of the user role is a bit of the admin
  role. The masks are those \<^verbatim>\<open>ROLE_PERMISSIONS\<close> gives the three roles.
\<close>

theorem role_permissions_nested:
  "PERMISSIONS_VIEWER AND PERMISSIONS_USER = PERMISSIONS_VIEWER \<and>
   PERMISSIONS_USER AND PERMISSIONS_ADMIN = PERMISSIONS_USER \<and>
   (\<forall>n. bit PERMISSIONS_VIEWER n \<longrightarrow> bit PERMISSIONS_USER n) \<and>
   (\<forall>n. bit PERMISSIONS_USER n \<longrightarrow> bit PERMISSIONS_ADMIN n) \<and>
   ROLE_PERMISSIONS ''viewer'' = Some PERMISSIONS_VIEWER \<and>
   ROLE_PERMISSIONS ''user'' = Some PERMISSIONS_USER \<and>
   ROLE_PERMISSIONS ''admin'' = Some PERMISSIONS_ADMIN"
proof -
  have vu: "PERMISSIONS_VIEWER AND PERMISSIONS_USER = PERMISSIONS_VIEWER"
    by (simp add: viewer_mask_value user_mask_value)
  have ua: "PERMISSIONS_USER AND PERMISSIONS_ADMIN = PERMISSIONS_USER"
    by (simp add: user_mask_value admin_mask_value)
  have roles: "ROLE_PERMISSIONS ''viewer'' = Some PERMISSIONS_VIEWER"
    "ROLE_PERMISSIONS ''user'' = Some PERMISSIONS_USER"
    "ROLE_PERMISSIONS ''admin'' = Some PERMISSIONS_ADMIN"
    by (simp_all add: ROLE_PERMISSIONS_def)
  from vu ua roles mask_subset_bits [OF vu] mask_subset_bits [OF ua]
  show ?thesis by blast
qed

theorem role_permissions_nested_witness:
  "bit PERMISSIONS_VIEWER 0 \<and> bit PERMISSIONS_USER 0 \<and>
   bit PERMISSIONS_USER 1 \<and> bit PERMISSIONS_ADMIN 1"
proof -
  have v: "bit PERMISSIONS_VIEWER 0"
    by (simp add: viewer_mask_value)
  have u: "bit PERMISSIONS_USER 1"
    by (simp add: user_mask_value)
  from v u role_permissions_nested show ?thesis by blast
qed

section \<open>Properties of the state codec\<close>

lemma split_once_first:
  assumes "sep \<notin> set p"
  shows "split_once sep (p @ sep # r) = [p, r]"
proof -
  from assms have all: "\<And>x. x \<in> set p \<Longrightarrow> x \<noteq> sep" by auto
  have t: "takeWhile (\<lambda>c. c \<noteq> sep) (p @ sep # r) = p"
    using all by (simp add: takeWhile_append2)
  have d: "dropWhile (\<lambda>c. c \<noteq> sep) (p @ sep # r) = sep # r"
    using all by (simp add: dropWhile_append2)
  show ?thesis
    unfolding split_once_def t d by simp
qed

lemma parse_first:
  assumes "separator \<notin> set p"
  shows "parse (p @ separator # r) = Inr (p, r)"
  using split_once_first [OF assms, of r] by (simp add: parse_def unpack_pair_def)

lemma parse_no_separator:
  assumes "separator \<notin> set s"
  shows "parse s = Inl (ValueError ''not enough values to unpack (expected 2, got 1)'')"
  using assms by (simp add: parse_def split_once_def unpack_pair_def)

lemma validate_state_mismatch:
  assumes "separator \<notin> set embedded" and "embedded \<noteq> provider_id"
  shows "validate_state provider_id (Some (embedded @ separator # random)) =
    Inl (HTTPException 400 ''Provider mismatch'')"
  using assms(2) parse_first [OF assms(1), of random] by (simp add: validate_state_def)

text \<open>
  Claim C1. A callback whose state contains the separator and whose embedded provider
  identifier (the part before the first separator) differs from the provider of the route
  fails with the provider mismatch error (\<^verbatim>\<open>HTTPException(400, "Provider mismatch")\<close>):
  the state check raises it, and so the callback fails with it, whatever the code is and
  whatever the remaining steps (code exchange, token verification) would have answered.
\<close>

theorem handleCallback_provider_mismatch:
  assumes "state = embedded @ separator # random"
    and "separator \<notin> set embedded"
    and "embedded \<noteq> provider_id"
  shows "validate_state provider_id (Some state) =
      Inl (HTTPException 400 ''Provider mismatch'') \<and>
    handleCallback steps provider_id code (Some state) =
      Inl (HTTPException 400 ''Provider mismatch'')"
proof -
  have "validate_state provider_id (Some state) = Inl (HTTPException 400 ''Provider mismatch'')"
    unfolding assms(1) by (rule validate_state_mismatch [OF assms(2,3)])
  then show ?thesis by (simp add: handleCallback_def)
qed

theorem handleCallback_provider_mismatch_witness:
  "handleCallback (\<lambda>p c. Inr ''session-for-any-code'') ''alpha'' ''valid-code''
     (Some ''beta:8Zk3:q'') = (Inl (HTTPException 400 ''Provider mismatch'') :: error + string)"
proof -
  have s: "''beta:8Zk3:q'' = ''beta'' @ separator # ''8Zk3:q''"
    by (simp add: separator_def)
  have n: "separator \<notin> set ''beta''"
    by (simp add: separator_def)
  have d: "''beta'' \<noteq> ''alpha''"
    by simp
  from handleCallback_provider_mismatch [OF s n d] show ?thesis
    by (rule conjunct2)
qed

text \<open>
  Claim C3. Issuing a state for a provider identifier without the separator and parsing
  it gives the identifier back (and the random token with it); \<open>issue\<close> is the
  identifier, the separator, then the token.
\<close>

theorem parse_issue_roundtrip:
  assumes "separator \<notin> set provider_id"
  shows "parse (issue provider_id random_token) = Inr (provider_id, random_token) \<and>
    issue provider_id random_token = provider_id @ [separator] @ random_token"
  using parse_first [OF assms, of random_token] by (simp add: issue_def)

theorem parse_issue_roundtrip_witness:
  "separator \<notin> set ''corp'' \<and>
   parse (issue ''corp'' ''x9:Lw_'') = Inr (''corp'', ''x9:Lw_'')"
proof -
  have n: "separator \<notin> set ''corp''"
    by (simp add: separator_def)
  from n parse_issue_roundtrip [OF n, of "''x9:Lw_''"] show ?thesis by blast
qed

text \<open>
  Claim C4. \<open>parse\<close> splits at the first separator: the part before it is the provider
  identifier and everything after it, further separators included, is the random part;
  every string that contains the separator is split so. A string without the separator
  is rejected: the unpacking of the one-element split raises (Python's \<^verbatim>\<open>ValueError\<close>,
  the malformed-state failure of the codec).
\<close>

theorem parse_splits_at_first_separator:
  "(\<forall>p r. separator \<notin> set p \<longrightarrow> parse (p @ separator # r) = Inr (p, r)) \<and>
   (\<forall>s. separator \<in> set s \<longrightarrow>
      (\<exists>p r. s = p @ separator # r \<and> separator \<notin> set p \<and> parse s = Inr (p, r))) \<and>
   (\<forall>s. separator \<notin> set s \<longrightarrow>
      parse s = Inl (ValueError ''not enough values to unpack (expected 2, got 1)''))"
proof (intro conjI allI impI)
  fix p r
  assume "separator \<notin> set p"
  then show "parse (p @ separator # r) = Inr (p, r)"
    by (rule parse_first)
next
  fix s
  assume "separator \<in> set s"
  then obtain p r where s: "s = p @ separator # r" and n: "separator \<notin> set p"
    by (blast dest: split_list_first)
  from n have "parse (p @ separator # r) = Inr (p, r)"
    by (rule parse_first)
  with s n show "\<exists>p r. s = p @ separator # r \<and> separator \<notin> set p \<and> parse s = Inr (p, r)"
    by blast
next
  fix s
  assume "separator \<notin> set s"
  then show "parse s = Inl (ValueError ''not enough values to unpack (expected 2, got 1)'')"
    by (rule parse_no_separator)
qed

theorem parse_splits_at_first_separator_witness:
  "parse ''corp:ab:cd'' = Inr (''corp'', ''ab:cd'') \<and>
   parse ''corp-ab-cd'' = Inl (ValueError ''not enough values to unpack (expected 2, got 1)'') \<and>
   parse [] = Inl (ValueError ''not enough values to unpack (expected 2, got 1)'')"
proof -
  have a: "separator \<notin> set ''corp''"
    by (simp add: separator_def)
  have b: "separator \<notin> set ''corp-ab-cd''"
    by (simp add: separator_def)
  have c: "separator \<notin> set []"
    by simp
  have e: "''corp:ab:cd'' = ''corp'' @ separator # ''ab:cd''"
    by (simp add: separator_def)
  from parse_splits_at_first_separator a b c show ?thesis
    unfolding e by blast
qed

section \<open>Properties of the claim mapping\<close>

lemma extract_user_data_username:
  assumes "claims (dict_get (mappings_of (get_oidc_provider provider_id))
             ''username'' ''preferred_username'') = Some u"
    and "u \<noteq> []"
  shows "\<exists>d. extract_user_data get_oidc_provider provider_id claims = Inr d \<and>
    ud_username d = u \<and> ud_provider_id d = provider_id"
  using assms by (simp add: extract_user_data_def Let_def)

lemma username_claim_mapped:
  assumes "claim_mappings p = Some m" and "m ''username'' = Some c"
  shows "dict_get (mappings_of p) ''username'' ''preferred_username'' = c"
  using assms by (simp add: dict_get_def mappings_of_def)

lemma username_claim_default:
  assumes "claim_mappings p = None \<or> (\<exists>m. claim_mappings p = Some m \<and> m ''username'' = None)"
  shows "dict_get (mappings_of p) ''username'' ''preferred_username'' = ''preferred_username''"
  using assms by (auto simp: dict_get_def mappings_of_def)

text \<open>
  Claim C5. Claim extraction reads the username from the claim the provider's own mapping
  names, and from the default claim \<^verbatim>\<open>preferred_username\<close> when the provider has no mapping
  entry for the username. So for a provider alpha that maps the username to \<^verbatim>\<open>sub\<close> and a
  provider beta without a username mapping, one claim set with \<^verbatim>\<open>sub\<close> = u1 and
  \<^verbatim>\<open>preferred_username\<close> = u2 gives the username u1 for alpha and u2 for beta.
\<close>

theorem extract_user_data_per_provider_mapping:
  assumes "claim_mappings (get_oidc_provider alpha) = Some m"
    and "m ''username'' = Some ''sub''"
    and "claim_mappings (get_oidc_provider beta) = None \<or>
      (\<exists>m'. claim_mappings (get_oidc_provider beta) = Some m' \<and> m' ''username'' = None)"
    and "claims ''sub'' = Some u1" and "u1 \<noteq> []"
    and "claims ''preferred_username'' = Some u2" and "u2 \<noteq> []"
  shows "\<exists>a b. extract_user_data get_oidc_provider alpha claims = Inr a \<and>
      ud_username a = u1 \<and> ud_provider_id a = alpha \<and>
      extract_user_data get_oidc_provider beta claims = Inr b \<and>
      ud_username b = u2 \<and> ud_provider_id b = beta"
proof -
  have "dict_get (mappings_of (get_oidc_provider alpha)) ''username'' ''preferred_username''
      = ''sub''"
    using assms(1,2) by (rule username_claim_mapped)
  with assms(4) have "claims (dict_get (mappings_of (get_oidc_provider alpha))
      ''username'' ''preferred_username'') = Some u1"
    by simp
  then have "\<exists>d. extract_user_data get_oidc_provider alpha claims = Inr d \<and>
      ud_username d = u1 \<and> ud_provider_id d = alpha"
    using assms(5) by (rule extract_user_data_username)
  then obtain a where a: "extract_user_data get_oidc_provider alpha claims = Inr a"
      "ud_username a = u1" "ud_provider_id a = alpha"
    by blast
  have "dict_get (mappings_of (get_oidc_provider beta)) ''username'' ''preferred_username''
      = ''preferred_username''"
    using assms(3) by (rule username_claim_default)
  with assms(6) have "claims (dict_get (mappings_of (get_oidc_provider beta))
      ''username'' ''preferred_username'') = Some u2"
    by simp
  then have "\<exists>d. extract_user_data get_oidc_provider beta claims = Inr d \<and>
      ud_username d = u2 \<and> ud_provider_id d = beta"
    using assms(7) by (rule extract_user_data_username)
  then obtain b where b: "extract_user_data get_oidc_provider beta claims = Inr b"
      "ud_username b = u2" "ud_provider_id b = beta"
    by blast
  from a b show ?thesis by blast
qed

theorem extract_user_data_per_provider_mapping_witness:
  "map_sum id ud_username (extract_user_data example_providers ''alpha'' example_claims)
     = Inr ''u1'' \<and>
   map_sum id ud_username (extract_user_data example_providers ''beta'' example_claims)
     = Inr ''u2''"
proof -
  have 1: "claim_mappings (example_providers ''alpha'') = Some [''username'' \<mapsto> ''sub'']"
    by (simp add: example_providers_def)
  have 2: "[''username'' \<mapsto> ''sub''] ''username'' = Some ''sub''"
    by simp
  have 3: "claim_mappings (example_providers ''beta'') = None \<or>
      (\<exists>m'. claim_mappings (example_providers ''beta'') = Some m' \<and> m' ''username'' = None)"
    by (simp add: example_providers_def empty_provider_def)
  have 4: "example_claims ''sub'' = Some ''u1''"
    by (simp add: example_claims_def)
  have 5: "''u1'' \<noteq> []"
    by simp
  have 6: "example_claims ''preferred_username'' = Some ''u2''"
    by (simp add: example_claims_def)
  have 7: "''u2'' \<noteq> []"
    by simp
  from extract_user_data_per_provider_mapping [OF 1 2 3 4 5 6 7]
  obtain a b where "extract_user_data example_providers ''alpha'' example_claims = Inr a"
      "ud_username a = ''u1''"
      "extract_user_data example_providers ''beta'' example_claims = Inr b"
      "ud_username b = ''u2''"
    by blast
  then show ?thesis by simp
qed

section \<open>Properties of the SSL context\<close>

lemma get_ssl_context_uncached:
  assumes "ssl_contexts self provider_id = None"
    and "ca_cert_path (get_oidc_provider provider_id) = Some path"
    and "path \<noteq> []"
  shows "get_ssl_context h get_oidc_provider self provider_id =
    (case file_exists h (path_str (resolve_ca_cert h path)) of
       Inl e \<Rightarrow> (Inl e, self)
     | Inr False \<Rightarrow>
         (Inr None,
          self\<lparr>warnings :=
            warnings self @ [''CA cert not found: '' @ path_str (resolve_ca_cert h path)]\<rparr>)
     | Inr True \<Rightarrow>
         (case load_verify_locations h (path_str (resolve_ca_cert h path)) of
            Inl e \<Rightarrow> (Inl e, self)
          | Inr ssl_ctx \<Rightarrow>
              (Inr (Some ssl_ctx),
               self\<lparr>ssl_contexts := (ssl_contexts self)(provider_id \<mapsto> ssl_ctx)\<rparr>)))"
  using assms by (simp add: get_ssl_context_def Let_def)

text \<open>
  The statement of claim C6 fails on the code: the provider corp names the CA file
  \<^verbatim>\<open>config/certs/missing.pem\<close>, which does not exist under the base directory; the function
  raises nothing and returns \<^verbatim>\<open>None\<close>.
\<close>

theorem get_ssl_context_missing_file_counterexample:
  "ca_cert_path (example_providers ''corp'') = Some ''config/certs/missing.pem'' \<and>
   path_str (resolve_ca_cert example_host ''config/certs/missing.pem'')
     = ''/app/config/certs/missing.pem'' \<and>
   file_exists example_host ''/app/config/certs/missing.pem'' = Inr False \<and>
   fst (get_ssl_context example_host example_providers fresh_service ''corp'') = Inr None"
  by (simp add: get_ssl_context_def example_providers_def example_host_def fresh_service_def
      resolve_ca_cert_def is_absolute_def parse_path_def joinpath_def path_str_def)

text \<open>
  Claim C6, amended. Let a provider's \<^verbatim>\<open>ca_cert_path\<close> be a non-empty path and no context be
  cached for the provider; the path is parsed as \<^verbatim>\<open>pathlib\<close> parses it and joined to the base
  directory when it is not absolute. When the existence check answers that there is no
  such file, the function does not fail: it logs the warning that the CA certificate was
  not found, with the resolved path, and returns no context; the cache is unchanged. When
  the existence check itself raises, that error is what the function raises, and the
  service is unchanged.
\<close>

theorem get_ssl_context_missing_file:
  assumes "ssl_contexts self provider_id = None"
    and "ca_cert_path (get_oidc_provider provider_id) = Some path"
    and "path \<noteq> []"
  shows "(file_exists h (path_str (resolve_ca_cert h path)) = Inr False \<longrightarrow>
       get_ssl_context h get_oidc_provider self provider_id =
         (Inr None,
          self\<lparr>warnings :=
            warnings self @ [''CA cert not found: '' @ path_str (resolve_ca_cert h path)]\<rparr>) \<and>
       ssl_contexts (snd (get_ssl_context h get_oidc_provider self provider_id))
         = ssl_contexts self) \<and>
    (\<forall>e. file_exists h (path_str (resolve_ca_cert h path)) = Inl e \<longrightarrow>
       get_ssl_context h get_oidc_provider self provider_id = (Inl e, self)) \<and>
    resolve_ca_cert h path =
      (if is_absolute (parse_path path) then parse_path path
       else joinpath (base_dir h) (parse_path path))"
proof (intro conjI impI allI)
  note u = get_ssl_context_uncached [of self provider_id get_oidc_provider path h]
  assume "file_exists h (path_str (resolve_ca_cert h path)) = Inr False"
  then show "get_ssl_context h get_oidc_provider self provider_id =
      (Inr None,
       self\<lparr>warnings :=
         warnings self @ [''CA cert not found: '' @ path_str (resolve_ca_cert h path)]\<rparr>)"
    using assms by (simp add: u)
  then show "ssl_contexts (snd (get_ssl_context h get_oidc_provider self provider_id))
      = ssl_contexts self"
    by simp
next
  fix e
  assume "file_exists h (path_str (resolve_ca_cert h path)) = Inl e"
  then show "get_ssl_context h get_oidc_provider self provider_id = (Inl e, self)"
    using assms
    by (simp add: get_ssl_context_uncached [of self provider_id get_oidc_provider path h])
next
  show "resolve_ca_cert h path =
      (if is_absolute (parse_path path) then parse_path path
       else joinpath (base_dir h) (parse_path path))"
    by (simp add: resolve_ca_cert_def)
qed

lemma example_lab_path:
  "path_str (resolve_ca_cert example_host ''./config//certs/lab.pem'')
     = ''/app/config/certs/lab.pem''"
  by (simp add: resolve_ca_cert_def is_absolute_def parse_path_def joinpath_def path_str_def
      example_host_def)

lemma example_vault_path:
  "path_str (resolve_ca_cert example_host ''/vault/ca.pem'') = ''/vault/ca.pem''"
  by (simp add: resolve_ca_cert_def is_absolute_def parse_path_def joinpath_def path_str_def
      example_host_def)

theorem get_ssl_context_missing_file_witness:
  "get_ssl_context example_host example_providers fresh_service ''lab'' =
     (Inr None,
      \<lparr>ssl_contexts = Map.empty,
       warnings = [''CA cert not found: /app/config/certs/lab.pem'']\<rparr>) \<and>
   get_ssl_context example_host example_providers fresh_service ''vault'' =
     (Inl (OSError ''Permission denied''), fresh_service)"
proof -
  have c: "ssl_contexts fresh_service ''lab'' = None" "ssl_contexts fresh_service ''vault'' = None"
    by (simp_all add: fresh_service_def)
  have lab: "ca_cert_path (example_providers ''lab'') = Some ''./config//certs/lab.pem''"
    by (simp add: example_providers_def)
  have vault: "ca_cert_path (example_providers ''vault'') = Some ''/vault/ca.pem''"
    by (simp add: example_providers_def)
  have ne: "''./config//certs/lab.pem'' \<noteq> []" "''/vault/ca.pem'' \<noteq> []"
    by simp_all
  have gone: "file_exists example_host
      (path_str (resolve_ca_cert example_host ''./config//certs/lab.pem'')) = Inr False"
    unfolding example_lab_path by (simp add: example_host_def)
  have denied: "file_exists example_host
      (path_str (resolve_ca_cert example_host ''/vault/ca.pem'')) = Inl (OSError ''Permission denied'')"
    unfolding example_vault_path by (simp add: example_host_def)
  note l = get_ssl_context_missing_file
    [of fresh_service "''lab''" example_providers "''./config//certs/lab.pem''" example_host,
      OF c(1) lab ne(1)]
  note v = get_ssl_context_missing_file
    [of fresh_service "''vault''" example_providers "''/vault/ca.pem''" example_host,
      OF c(2) vault ne(2)]
  from l [THEN conjunct1] gone
  have 1: "get_ssl_context example_host example_providers fresh_service ''lab'' =
      (Inr None,
       \<lparr>ssl_contexts = Map.empty,
        warnings = [''CA cert not found: /app/config/certs/lab.pem'']\<rparr>)"
    unfolding example_lab_path by (simp add: fresh_service_def)
  from v [THEN conjunct2, THEN conjunct1] denied
  have 2: "get_ssl_context example_host example_providers fresh_service ''vault'' =
      (Inl (OSError ''Permission denied''), fresh_service)"
    by blast
  from 1 2 show ?thesis by (intro conjI)
qed

section \<open>Properties of the authentication store\<close>

lemma initial_invariant: "auth_invariant initial_state"
  by (simp add: auth_invariant_def initial_state_def)

lemma login_state:
  "snd (login J t u (b, s)) = \<lparr>token = Some t, user = JObject u, isAuthenticated = True\<rparr>"
  by (simp add: login_def)

lemma logout_state:
  "snd (logout (b, s)) = \<lparr>token = None, user = JNull, isAuthenticated = False\<rparr>"
  by (simp add: logout_def)

lemma removeCookies_cookies:
  "cookies (removeCookies b) ''cockpit_auth_token'' = None \<and>
   cookies (removeCookies b) ''cockpit_user_info'' = None"
  by (simp add: removeCookies_def Cookies_remove_def Let_def)

lemma logout_cookies:
  "cookies (fst (logout (b, s))) ''cockpit_auth_token'' = None \<and>
   cookies (fst (logout (b, s))) ''cockpit_user_info'' = None"
  using removeCookies_cookies [of b] by (simp add: logout_def)

lemma getCookieToken_Some:
  assumes "getCookieToken b = Some t"
  shows "cookies b ''cockpit_auth_token'' = Some t"
  using assms
  by (simp add: getCookieToken_def Cookies_get_def split: if_splits option.splits)

lemma getCookieUser_truthy:
  assumes "truthy (getCookieUser J b)"
  shows "\<exists>c. cookies b ''cockpit_user_info'' = Some c \<and>
    JSON_parse J c = Some (getCookieUser J b)"
  using assms
  by (auto simp: getCookieUser_def Cookies_get_def split: if_splits option.splits)

lemma hydrate_cases:
  "hydrate J (b, s) =
     (case getCookieToken b of
        Some t \<Rightarrow>
          if truthy (getCookieUser J b)
          then (b, \<lparr>token = Some t, user = getCookieUser J b, isAuthenticated = True\<rparr>)
          else (removeCookies b, \<lparr>token = None, user = JNull, isAuthenticated = False\<rparr>)
      | None \<Rightarrow> (removeCookies b, \<lparr>token = None, user = JNull, isAuthenticated = False\<rparr>))"
  by (simp add: hydrate_def split: option.splits)

lemma hydrate_authenticated:
  assumes "isAuthenticated (snd (hydrate J (b, s)))"
  shows "\<exists>t c v. cookies b ''cockpit_auth_token'' = Some t \<and>
    cookies b ''cockpit_user_info'' = Some c \<and> JSON_parse J c = Some v \<and> v \<noteq> JNull \<and>
    hydrate J (b, s) = (b, \<lparr>token = Some t, user = v, isAuthenticated = True\<rparr>)"
proof (cases "getCookieToken b")
  case None
  with assms show ?thesis by (simp add: hydrate_cases)
next
  case (Some t)
  with assms have tr: "truthy (getCookieUser J b)"
    by (simp add: hydrate_cases split: if_splits)
  then obtain c where c: "cookies b ''cockpit_user_info'' = Some c"
      "JSON_parse J c = Some (getCookieUser J b)"
    using getCookieUser_truthy by blast
  from tr have "getCookieUser J b \<noteq> JNull" by auto
  moreover from Some tr have "hydrate J (b, s) =
      (b, \<lparr>token = Some t, user = getCookieUser J b, isAuthenticated = True\<rparr>)"
    by (simp add: hydrate_cases)
  ultimately show ?thesis using getCookieToken_Some [OF Some] c by blast
qed

lemma hydrate_unauthenticated:
  assumes "\<not> isAuthenticated (snd (hydrate J (b, s)))"
  shows "hydrate J (b, s) =
    (removeCookies b, \<lparr>token = None, user = JNull, isAuthenticated = False\<rparr>)"
  using assms by (simp add: hydrate_cases split: option.splits if_splits)

lemma hydrate_missing:
  assumes "cookies b ''cockpit_auth_token'' = None \<or> cookies b ''cockpit_user_info'' = None \<or>
    (\<exists>c. cookies b ''cockpit_user_info'' = Some c \<and> JSON_parse J c = None)"
  shows "\<not> isAuthenticated (snd (hydrate J (b, s)))"
proof
  assume "isAuthenticated (snd (hydrate J (b, s)))"
  then obtain t c v where "cookies b ''cockpit_auth_token'' = Some t"
      "cookies b ''cockpit_user_info'' = Some c" "JSON_parse J c = Some v"
    using hydrate_authenticated by blast
  with assms show False by auto
qed

lemma hydrate_invariant: "auth_invariant (snd (hydrate J (b, s)))"
proof (cases "isAuthenticated (snd (hydrate J (b, s)))")
  case True
  from hydrate_authenticated [OF True] show ?thesis
    by (auto simp: auth_invariant_def)
next
  case False
  from hydrate_unauthenticated [OF False] show ?thesis
    by (simp add: auth_invariant_def)
qed

lemma step_invariant:
  assumes "auth_invariant (snd w)"
  shows "auth_invariant (snd (step J a w))"
proof (cases w)
  case (Pair b s)
  show ?thesis
  proof (cases a)
    case (Login t u)
    with Pair show ?thesis by (simp add: login_state auth_invariant_def)
  next
    case Logout
    with Pair show ?thesis by (simp add: logout_state auth_invariant_def)
  next
    case (SetUser u)
    with Pair assms show ?thesis by (simp add: setUser_def auth_invariant_def)
  next
    case Hydrate
    with Pair show ?thesis by (simp add: hydrate_invariant)
  qed
qed

lemma run_invariant:
  assumes "auth_invariant (snd w)"
  shows "auth_invariant (snd (run J acts w))"
  using assms
proof (induction acts arbitrary: w)
  case Nil
  then show ?case by simp
next
  case (Cons a acts)
  from Cons.prems have "auth_invariant (snd (step J a w))"
    by (rule step_invariant)
  then show ?case by (simp add: Cons.IH)
qed

text \<open>
  Claim C9. The store is authenticated exactly when it has a token, and then it has a
  user: this holds of the initial store, is kept by every operation and so holds after
  any sequence of operations. Login sets token, user and flag together; logout clears the
  three and removes both cookies; hydrate authenticates only when the token cookie and a
  user cookie that parses are there, taking token and user from them and leaving the
  cookies alone, and in every other case removes both cookies and resets the store.
\<close>

theorem auth_store_invariant:
  "auth_invariant initial_state \<and>
   (\<forall>a w. auth_invariant (snd w) \<longrightarrow> auth_invariant (snd (step J a w))) \<and>
   (\<forall>acts b. auth_invariant (snd (run J acts (b, initial_state)))) \<and>
   (\<forall>t u b s. snd (login J t u (b, s)) =
      \<lparr>token = Some t, user = JObject u, isAuthenticated = True\<rparr>) \<and>
   (\<forall>b s. snd (logout (b, s)) = \<lparr>token = None, user = JNull, isAuthenticated = False\<rparr> \<and>
      cookies (fst (logout (b, s))) ''cockpit_auth_token'' = None \<and>
      cookies (fst (logout (b, s))) ''cockpit_user_info'' = None) \<and>
   (\<forall>b s. isAuthenticated (snd (hydrate J (b, s))) \<longrightarrow>
      (\<exists>t c v. cookies b ''cockpit_auth_token'' = Some t \<and>
         cookies b ''cockpit_user_info'' = Some c \<and> JSON_parse J c = Some v \<and> v \<noteq> JNull \<and>
         hydrate J (b, s) = (b, \<lparr>token = Some t, user = v, isAuthenticated = True\<rparr>))) \<and>
   (\<forall>b s. \<not> isAuthenticated (snd (hydrate J (b, s))) \<longrightarrow>
      hydrate J (b, s) =
        (removeCookies b, \<lparr>token = None, user = JNull, isAuthenticated = False\<rparr>) \<and>
      cookies (removeCookies b) ''cockpit_auth_token'' = None \<and>
      cookies (removeCookies b) ''cockpit_user_info'' = None) \<and>
   (\<forall>b s. cookies b ''cockpit_auth_token'' = None \<or> cookies b ''cockpit_user_info'' = None \<or>
        (\<exists>c. cookies b ''cockpit_user_info'' = Some c \<and> JSON_parse J c = None) \<longrightarrow>
      \<not> isAuthenticated (snd (hydrate J (b, s))))"
proof -
  have runs: "\<forall>acts b. auth_invariant (snd (run J acts (b, initial_state)))"
    by (simp add: run_invariant initial_invariant)
  have steps: "\<forall>a w. auth_invariant (snd w) \<longrightarrow> auth_invariant (snd (step J a w))"
    by (simp add: step_invariant)
  have ins: "\<forall>t u b s. snd (login J t u (b, s)) =
      \<lparr>token = Some t, user = JObject u, isAuthenticated = True\<rparr>"
    by (simp add: login_state)
  have outs: "\<forall>b s. snd (logout (b, s)) = \<lparr>token = None, user = JNull, isAuthenticated = False\<rparr> \<and>
      cookies (fst (logout (b, s))) ''cockpit_auth_token'' = None \<and>
      cookies (fst (logout (b, s))) ''cockpit_user_info'' = None"
    using logout_state logout_cookies by blast
  have hyd1: "\<forall>b s. isAuthenticated (snd (hydrate J (b, s))) \<longrightarrow>
      (\<exists>t c v. cookies b ''cockpit_auth_token'' = Some t \<and>
         cookies b ''cockpit_user_info'' = Some c \<and> JSON_parse J c = Some v \<and> v \<noteq> JNull \<and>
         hydrate J (b, s) = (b, \<lparr>token = Some t, user = v, isAuthenticated = True\<rparr>))"
    using hydrate_authenticated by blast
  have hyd2: "\<forall>b s. \<not> isAuthenticated (snd (hydrate J (b, s))) \<longrightarrow>
      hydrate J (b, s) =
        (removeCookies b, \<lparr>token = None, user = JNull, isAuthenticated = False\<rparr>) \<and>
      cookies (removeCookies b) ''cockpit_auth_token'' = None \<and>
      cookies (removeCookies b) ''cockpit_user_info'' = None"
    using hydrate_unauthenticated removeCookies_cookies by blast
  have hyd3: "\<forall>b s. cookies b ''cockpit_auth_token'' = None \<or>
        cookies b ''cockpit_user_info'' = None \<or>
        (\<exists>c. cookies b ''cockpit_user_info'' = Some c \<and> JSON_parse J c = None) \<longrightarrow>
      \<not> isAuthenticated (snd (hydrate J (b, s)))"
    using hydrate_missing by blast
  from initial_invariant steps runs ins outs hyd1 hyd2 hyd3 show ?thesis
    by (intro conjI)
qed

theorem auth_store_invariant_witness:
  "auth_invariant (snd (run example_json [Login ''abc'' ann, Hydrate, SetUser ann, Logout, Hydrate]
      (empty_browser, initial_state))) \<and>
   hydrate example_json (session_browser, initial_state) =
     (session_browser, \<lparr>token = Some ''abc'', user = JObject ann, isAuthenticated = True\<rparr>) \<and>
   hydrate example_json (broken_browser, \<lparr>token = Some ''abc'', user = JObject ann,
       isAuthenticated = True\<rparr>) =
     (empty_browser, \<lparr>token = None, user = JNull, isAuthenticated = False\<rparr>)"
proof -
  note inst = auth_store_invariant [of example_json]
  have 1: "auth_invariant (snd (run example_json
      [Login ''abc'' ann, Hydrate, SetUser ann, Logout, Hydrate] (empty_browser, initial_state)))"
    using inst by blast
  have auth: "isAuthenticated (snd (hydrate example_json (session_browser, initial_state)))"
    by (simp add: hydrate_def getCookieToken_def getCookieUser_def Cookies_get_def
        session_browser_def empty_browser_def example_json_def)
  with inst obtain t c v where h: "cookies session_browser ''cockpit_auth_token'' = Some t"
      "cookies session_browser ''cockpit_user_info'' = Some c"
      "JSON_parse example_json c = Some v"
      "hydrate example_json (session_browser, initial_state) =
        (session_browser, \<lparr>token = Some t, user = v, isAuthenticated = True\<rparr>)"
    by blast
  from h(1) have t: "t = ''abc''"
    by (simp add: session_browser_def)
  from h(2) have c: "c = ''{id:7,username:ann}''"
    by (simp add: session_browser_def)
  from h(3) have v: "v = JObject ann"
    unfolding c by (simp add: example_json_def)
  from h(4) have 2: "hydrate example_json (session_browser, initial_state) =
      (session_browser, \<lparr>token = Some ''abc'', user = JObject ann, isAuthenticated = True\<rparr>)"
    unfolding t v .
  have bad: "cookies broken_browser ''cockpit_auth_token'' = None \<or>
      cookies broken_browser ''cockpit_user_info'' = None \<or>
      (\<exists>c. cookies broken_browser ''cockpit_user_info'' = Some c \<and>
         JSON_parse example_json c = None)"
    by (simp add: broken_browser_def example_json_def)
  with inst have "\<not> isAuthenticated (snd (hydrate example_json
      (broken_browser, \<lparr>token = Some ''abc'', user = JObject ann, isAuthenticated = True\<rparr>)))"
    by blast
  with inst have "hydrate example_json
      (broken_browser, \<lparr>token = Some ''abc'', user = JObject ann, isAuthenticated = True\<rparr>) =
      (removeCookies broken_browser, \<lparr>token = None, user = JNull, isAuthenticated = False\<rparr>)"
    by blast
  moreover have "removeCookies broken_browser = empty_browser"
    by (simp add: removeCookies_def Cookies_remove_def broken_browser_def empty_browser_def
        Let_def fun_eq_iff)
  ultimately have 3: "hydrate example_json
      (broken_browser, \<lparr>token = Some ''abc'', user = JObject ann, isAuthenticated = True\<rparr>) =
      (empty_browser, \<lparr>token = None, user = JNull, isAuthenticated = False\<rparr>)"
    by simp
  from 1 2 3 show ?thesis by (intro conjI)
qed

section \<open>Properties of the provider registry\<close>

lemma require_field_missing:
  assumes "missing v"
  shows "require_field provider_id key v = Inl (HTTPException 500 (missing_detail provider_id key))"
  using assms by (auto simp: require_field_def missing_def)

lemma require_field_present:
  assumes "\<not> missing v"
  shows "\<exists>x. v = Some x \<and> x \<noteq> [] \<and> require_field provider_id key v = Inr x"
  using assms by (cases v) (auto simp: require_field_def missing_def)

lemma require_field_Inr:
  assumes "require_field provider_id key v = Inr x"
  shows "v = Some x \<and> x \<noteq> []"
  using assms by (auto simp: require_field_def split: option.splits if_splits)

lemma validate_provider_missing:
  assumes "\<exists>(key, v) \<in> set (mandatory_fields p). missing v"
  shows "\<exists>(key, v) \<in> set (mandatory_fields p). missing v \<and>
    validate_provider provider_id p = Inl (HTTPException 500 (missing_detail provider_id key))"
proof (cases "missing (discovery_url p)")
  case True
  then show ?thesis
    by (simp add: validate_provider_def mandatory_fields_def require_field_missing)
next
  case du: False
  then obtain x1 where x1: "require_field provider_id ''discovery_url'' (discovery_url p) = Inr x1"
    using require_field_present by blast
  show ?thesis
  proof (cases "missing (client_id p)")
    case True
    with x1 show ?thesis
      by (simp add: validate_provider_def mandatory_fields_def require_field_missing)
  next
    case ci: False
    then obtain x2 where x2: "require_field provider_id ''client_id'' (client_id p) = Inr x2"
      using require_field_present by blast
    show ?thesis
    proof (cases "missing (client_secret p)")
      case True
      with x1 x2 show ?thesis
        by (simp add: validate_provider_def mandatory_fields_def require_field_missing)
    next
      case cs: False
      then obtain x3 where
        x3: "require_field provider_id ''client_secret'' (client_secret p) = Inr x3"
        using require_field_present by blast
      from assms du ci cs have "missing (redirect_uri p)"
        by (simp add: mandatory_fields_def)
      with x1 x2 x3 show ?thesis
        by (simp add: validate_provider_def mandatory_fields_def require_field_missing)
    qed
  qed
qed

lemma validate_provider_Inr:
  assumes "validate_provider provider_id p = Inr c"
  shows "cfg_identifier c = provider_id \<and>
    discovery_url p = Some (cfg_discovery_url c) \<and> cfg_discovery_url c \<noteq> [] \<and>
    client_id p = Some (cfg_client_id c) \<and> cfg_client_id c \<noteq> [] \<and>
    client_secret p = Some (cfg_client_secret c) \<and> cfg_client_secret c \<noteq> [] \<and>
    redirect_uri p = Some (cfg_redirect_uri c) \<and> cfg_redirect_uri c \<noteq> []"
proof -
  from assms obtain du ci cs ru where
    r: "require_field provider_id ''discovery_url'' (discovery_url p) = Inr du"
      "require_field provider_id ''client_id'' (client_id p) = Inr ci"
      "require_field provider_id ''client_secret'' (client_secret p) = Inr cs"
      "require_field provider_id ''redirect_uri'' (redirect_uri p) = Inr ru"
    by (auto simp: validate_provider_def split: sum.splits)
  with assms have "cfg_identifier c = provider_id" "cfg_discovery_url c = du"
      "cfg_client_id c = ci" "cfg_client_secret c = cs" "cfg_redirect_uri c = ru"
    by (auto simp: validate_provider_def)
  with r [THEN require_field_Inr] show ?thesis by simp
qed

lemma validate_provider_complete:
  assumes "\<not> (\<exists>(key, v) \<in> set (mandatory_fields p). missing v)"
  shows "\<exists>c. validate_provider provider_id p = Inr c"
proof -
  from assms have m: "\<not> missing (discovery_url p)" "\<not> missing (client_id p)"
      "\<not> missing (client_secret p)" "\<not> missing (redirect_uri p)"
    by (simp_all add: mandatory_fields_def)
  from m(1) obtain x1 where "require_field provider_id ''discovery_url'' (discovery_url p) = Inr x1"
    using require_field_present by blast
  moreover from m(2) obtain x2 where "require_field provider_id ''client_id'' (client_id p) = Inr x2"
    using require_field_present by blast
  moreover from m(3) obtain x3 where
    "require_field provider_id ''client_secret'' (client_secret p) = Inr x3"
    using require_field_present by blast
  moreover from m(4) obtain x4 where
    "require_field provider_id ''redirect_uri'' (redirect_uri p) = Inr x4"
    using require_field_present by blast
  ultimately show ?thesis by (simp add: validate_provider_def)
qed

lemma loadProviders_errors:
  "set (fst (loadProviders source)) =
     {e. \<exists>(i, p) \<in> set source. validate_provider i p = Inl e}"
proof (induction source)
  case Nil
  then show ?case by simp
next
  case (Cons entry source)
  obtain i p where entry: "entry = (i, p)" by (cases entry)
  obtain errors configs where rest: "loadProviders source = (errors, configs)"
    by (cases "loadProviders source")
  from Cons.IH rest have ih: "set errors = {e. \<exists>(i, p) \<in> set source. validate_provider i p = Inl e}"
    by simp
  show ?case
  proof (cases "validate_provider i p")
    case (Inl e)
    with entry rest ih show ?thesis by auto
  next
    case (Inr c)
    with entry rest ih show ?thesis by auto
  qed
qed

lemma loadProviders_configs:
  "set (snd (loadProviders source)) =
     {c. \<exists>(i, p) \<in> set source. validate_provider i p = Inr c}"
proof (induction source)
  case Nil
  then show ?case by simp
next
  case (Cons entry source)
  obtain i p where entry: "entry = (i, p)" by (cases entry)
  obtain errors configs where rest: "loadProviders source = (errors, configs)"
    by (cases "loadProviders source")
  from Cons.IH rest have ih: "set configs = {c. \<exists>(i, p) \<in> set source. validate_provider i p = Inr c}"
    by simp
  show ?case
  proof (cases "validate_provider i p")
    case (Inl e)
    with entry rest ih show ?thesis by auto
  next
    case (Inr c)
    with entry rest ih show ?thesis by auto
  qed
qed

lemma listEnabled_set: "set (listEnabled configs) = {c \<in> set configs. cfg_enabled c}"
  by (auto simp: listEnabled_def)

lemma listEnabled_mset: "mset (listEnabled configs) = filter_mset cfg_enabled (mset configs)"
  by (simp add: listEnabled_def)

lemma listEnabled_sorted:
  "sorted_wrt
     (\<lambda>c d. cfg_display_order c < cfg_display_order d \<or>
        (cfg_display_order c = cfg_display_order d \<and> cfg_identifier c \<le> cfg_identifier d))
     (listEnabled configs)"
proof -
  have "sorted (map (\<lambda>c. (cfg_display_order c, cfg_identifier c)) (listEnabled configs))"
    unfolding listEnabled_def by (rule sorted_sort_key)
  then have "sorted_wrt
      (\<lambda>c d. (cfg_display_order c, cfg_identifier c) \<le> (cfg_display_order d, cfg_identifier d))
      (listEnabled configs)"
    by (simp add: sorted_map)
  then show ?thesis
    by (rule sorted_wrt_mono_rel [rotated]) (auto simp: less_eq_prod_def)
qed

lemma loadProviders_missing_mandatory_aux:
  assumes "distinct (map fst source)"
    and "(provider_id, p) \<in> set source"
    and "\<exists>(key, v) \<in> set (mandatory_fields p). missing v"
  shows "(\<exists>(key, v) \<in> set (mandatory_fields p). missing v \<and>
        HTTPException 500 (missing_detail provider_id key) \<in> set (fst (loadProviders source))) \<and>
    provider_id \<notin> cfg_identifier ` set (snd (loadProviders source)) \<and>
    provider_id \<notin> cfg_identifier ` set (listEnabled (snd (loadProviders source))) \<and>
    (\<forall>(q, r) \<in> set source. \<not> (\<exists>(key, v) \<in> set (mandatory_fields r). missing v) \<longrightarrow>
        (\<exists>c \<in> set (snd (loadProviders source)). cfg_identifier c = q)) \<and>
    (\<forall>c \<in> set (snd (loadProviders source)).
        \<exists>r. (cfg_identifier c, r) \<in> set source \<and>
          discovery_url r = Some (cfg_discovery_url c) \<and> cfg_discovery_url c \<noteq> [] \<and>
          client_id r = Some (cfg_client_id c) \<and> cfg_client_id c \<noteq> [] \<and>
          client_secret r = Some (cfg_client_secret c) \<and> cfg_client_secret c \<noteq> [] \<and>
          redirect_uri r = Some (cfg_redirect_uri c) \<and> cfg_redirect_uri c \<noteq> [])"
proof -
  from validate_provider_missing [OF assms(3), of provider_id]
  obtain key v where kv: "(key, v) \<in> set (mandatory_fields p)" "missing v"
      "validate_provider provider_id p = Inl (HTTPException 500 (missing_detail provider_id key))"
    by blast
  from kv(3) assms(2)
  have "HTTPException 500 (missing_detail provider_id key) \<in> set (fst (loadProviders source))"
    unfolding loadProviders_errors by blast
  with kv(1,2) have 1: "\<exists>(key, v) \<in> set (mandatory_fields p). missing v \<and>
      HTTPException 500 (missing_detail provider_id key) \<in> set (fst (loadProviders source))"
    by blast
  have 2: "provider_id \<notin> cfg_identifier ` set (snd (loadProviders source))"
  proof
    assume "provider_id \<in> cfg_identifier ` set (snd (loadProviders source))"
    then obtain c i r where c: "cfg_identifier c = provider_id" "(i, r) \<in> set source"
        "validate_provider i r = Inr c"
      unfolding loadProviders_configs by blast
    from validate_provider_Inr [OF c(3)] c(1) have "i = provider_id" by simp
    with c(2) assms(1,2) have "r = p"
      by (metis eq_key_imp_eq_value)
    with c(3) \<open>i = provider_id\<close> kv(3) show False by simp
  qed
  have "set (listEnabled (snd (loadProviders source))) \<subseteq> set (snd (loadProviders source))"
    by (auto simp: listEnabled_set)
  with 2 have 3: "provider_id \<notin> cfg_identifier ` set (listEnabled (snd (loadProviders source)))"
    by blast
  have 4: "\<forall>(q, r) \<in> set source. \<not> (\<exists>(key, v) \<in> set (mandatory_fields r). missing v) \<longrightarrow>
      (\<exists>c \<in> set (snd (loadProviders source)). cfg_identifier c = q)"
  proof (intro ballI, clarify)
    fix q r
    assume qr: "(q, r) \<in> set source"
      and ok: "\<not> (\<exists>(key, v) \<in> set (mandatory_fields r). missing v)"
    from validate_provider_complete [OF ok, of q]
    obtain c where c: "validate_provider q r = Inr c" by blast
    with qr have "c \<in> set (snd (loadProviders source))"
      unfolding loadProviders_configs by blast
    moreover from validate_provider_Inr [OF c] have "cfg_identifier c = q" by simp
    ultimately show "\<exists>c \<in> set (snd (loadProviders source)). cfg_identifier c = q" by blast
  qed
  have 5: "\<forall>c \<in> set (snd (loadProviders source)).
      \<exists>r. (cfg_identifier c, r) \<in> set source \<and>
        discovery_url r = Some (cfg_discovery_url c) \<and> cfg_discovery_url c \<noteq> [] \<and>
        client_id r = Some (cfg_client_id c) \<and> cfg_client_id c \<noteq> [] \<and>
        client_secret r = Some (cfg_client_secret c) \<and> cfg_client_secret c \<noteq> [] \<and>
        redirect_uri r = Some (cfg_redirect_uri c) \<and> cfg_redirect_uri c \<noteq> []"
  proof
    fix c
    assume "c \<in> set (snd (loadProviders source))"
    then obtain i r where ir: "(i, r) \<in> set source" "validate_provider i r = Inr c"
      unfolding loadProviders_configs by blast
    from validate_provider_Inr [OF ir(2)] ir(1)
    show "\<exists>r. (cfg_identifier c, r) \<in> set source \<and>
        discovery_url r = Some (cfg_discovery_url c) \<and> cfg_discovery_url c \<noteq> [] \<and>
        client_id r = Some (cfg_client_id c) \<and> cfg_client_id c \<noteq> [] \<and>
        client_secret r = Some (cfg_client_secret c) \<and> cfg_client_secret c \<noteq> [] \<and>
        redirect_uri r = Some (cfg_redirect_uri c) \<and> cfg_redirect_uri c \<noteq> []"
      by blast
  qed
  from 1 2 3 4 5 show ?thesis by (intro conjI)
qed

text \<open>
  Claim C2. An entry of the source with a mandatory field (discovery URL, client id, client
  secret, redirect URI) absent or empty is rejected when the source is loaded: the errors
  hold one that names the provider and a missing field; the provider is not among the
  loaded configurations and so not among the enabled ones, whatever its enabled flag;
  every entry with its four mandatory fields loads; and the mandatory fields of every
  loaded configuration are the values of its own entry, never a substitute.
\<close>

theorem loadProviders_rejects_missing_mandatory:
  assumes "distinct (map fst source)"
    and "(provider_id, p) \<in> set source"
    and "\<exists>(key, v) \<in> set [(''discovery_url'', discovery_url p), (''client_id'', client_id p),
           (''client_secret'', client_secret p), (''redirect_uri'', redirect_uri p)]. v = None \<or> v = Some []"
  shows "(\<exists>(key, v) \<in> set [(''discovery_url'', discovery_url p), (''client_id'', client_id p),
           (''client_secret'', client_secret p), (''redirect_uri'', redirect_uri p)]. (v = None \<or> v = Some []) \<and>
        HTTPException 500
          (''Provider '' @ [CHR 0x27] @ provider_id @ [CHR 0x27] @ '' missing required ''
             @ [CHR 0x27] @ key @ [CHR 0x27])
          \<in> set (fst (loadProviders source))) \<and>
    provider_id \<notin> cfg_identifier ` set (snd (loadProviders source)) \<and>
    provider_id \<notin> cfg_identifier ` set (listEnabled (snd (loadProviders source))) \<and>
    (\<forall>(q, r) \<in> set source.
        \<not> (\<exists>(key, v) \<in> set [(''discovery_url'', discovery_url r), (''client_id'', client_id r),
           (''client_secret'', client_secret r), (''redirect_uri'', redirect_uri r)]. v = None \<or> v = Some []) \<longrightarrow>
        (\<exists>c \<in> set (snd (loadProviders source)). cfg_identifier c = q)) \<and>
    (\<forall>c \<in> set (snd (loadProviders source)).
        \<exists>r. (cfg_identifier c, r) \<in> set source \<and>
          discovery_url r = Some (cfg_discovery_url c) \<and> cfg_discovery_url c \<noteq> [] \<and>
          client_id r = Some (cfg_client_id c) \<and> cfg_client_id c \<noteq> [] \<and>
          client_secret r = Some (cfg_client_secret c) \<and> cfg_client_secret c \<noteq> [] \<and>
          redirect_uri r = Some (cfg_redirect_uri c) \<and> cfg_redirect_uri c \<noteq> [])"
proof -
  from assms(3) have m: "\<exists>(key, v) \<in> set (mandatory_fields p). missing v"
    unfolding mandatory_fields_def missing_def .
  from loadProviders_missing_mandatory_aux [OF assms(1,2) m] show ?thesis
    unfolding mandatory_fields_def missing_def missing_detail_def .
qed

theorem loadProviders_rejects_missing_mandatory_witness:
  "HTTPException 500
     (''Provider '' @ [CHR 0x27] @ ''nosecret'' @ [CHR 0x27] @ '' missing required ''
        @ [CHR 0x27] @ ''client_secret'' @ [CHR 0x27])
     \<in> set (fst (loadProviders example_source)) \<and>
   ''nosecret'' \<notin> cfg_identifier ` set (snd (loadProviders example_source)) \<and>
   ''nosecret'' \<notin> cfg_identifier ` set (listEnabled (snd (loadProviders example_source))) \<and>
   ''zeta'' \<in> cfg_identifier ` set (snd (loadProviders example_source))"
proof -
  let ?p = "complete_provider\<lparr>client_secret := None\<rparr>"
  let ?z = "complete_provider\<lparr>display_order := Some 1\<rparr>"
  have d: "distinct (map fst example_source)"
    by (simp add: example_source_def)
  have m: "(''nosecret'', ?p) \<in> set example_source"
    by (simp add: example_source_def)
  have x: "\<exists>(key, v) \<in> set [(''discovery_url'', discovery_url ?p), (''client_id'', client_id ?p),
        (''client_secret'', client_secret ?p), (''redirect_uri'', redirect_uri ?p)]. v = None \<or> v = Some []"
    by simp
  note inst = loadProviders_rejects_missing_mandatory [OF d m x]
  note i1 = inst [THEN conjunct1]
    and i2 = inst [THEN conjunct2, THEN conjunct1]
    and i3 = inst [THEN conjunct2, THEN conjunct2, THEN conjunct1]
    and i4 = inst [THEN conjunct2, THEN conjunct2, THEN conjunct2, THEN conjunct1]
  from i1 have 1: "HTTPException 500
      (''Provider '' @ [CHR 0x27] @ ''nosecret'' @ [CHR 0x27] @ '' missing required ''
         @ [CHR 0x27] @ ''client_secret'' @ [CHR 0x27])
      \<in> set (fst (loadProviders example_source))"
    by (simp add: complete_provider_def empty_provider_def)
  note 2 = i2 and 3 = i3
  have z: "(''zeta'', ?z) \<in> set example_source"
    by (simp add: example_source_def)
  have zok: "\<not> (\<exists>(key, v) \<in> set [(''discovery_url'', discovery_url ?z), (''client_id'', client_id ?z),
        (''client_secret'', client_secret ?z), (''redirect_uri'', redirect_uri ?z)]. v = None \<or> v = Some [])"
    by (simp add: complete_provider_def empty_provider_def)
  from i4 z zok have "\<exists>c \<in> set (snd (loadProviders example_source)). cfg_identifier c = ''zeta''"
    by blast
  then have 4: "''zeta'' \<in> cfg_identifier ` set (snd (loadProviders example_source))"
    by force
  from 1 2 3 4 show ?thesis by (intro conjI)
qed

text \<open>
  Claim C8. For every list of loaded configurations, \<open>listEnabled\<close> returns exactly the
  enabled ones, each as often as it was loaded, in ascending display order, configurations
  of equal display order by ascending identifier; no disabled provider is in the result.
\<close>

theorem listEnabled_enabled_sorted:
  "mset (listEnabled configs) = filter_mset cfg_enabled (mset configs) \<and>
   set (listEnabled configs) = {c \<in> set configs. cfg_enabled c} \<and>
   (\<forall>c \<in> set (listEnabled configs). cfg_enabled c) \<and>
   sorted_wrt
     (\<lambda>c d. cfg_display_order c < cfg_display_order d \<or>
        (cfg_display_order c = cfg_display_order d \<and> cfg_identifier c \<le> cfg_identifier d))
     (listEnabled configs)"
proof -
  have "\<forall>c \<in> set (listEnabled configs). cfg_enabled c"
    by (simp add: listEnabled_set)
  with listEnabled_mset [of configs] listEnabled_set [of configs] listEnabled_sorted [of configs]
  show ?thesis by (intro conjI)
qed

lemma example_listEnabled:
  "map cfg_identifier (listEnabled (snd (loadProviders example_source))) =
     [''zeta'', ''alpha'', ''beta'']"
  by (simp add: example_source_def complete_provider_def empty_provider_def
      validate_provider_def require_field_def or_default_def dict_get_def mappings_of_def
      listEnabled_def less_eq_prod_def less_eq_char_def less_char_def)

theorem listEnabled_enabled_sorted_witness:
  "map cfg_identifier (listEnabled (snd (loadProviders example_source))) =
     [''zeta'', ''alpha'', ''beta''] \<and>
   ''off'' \<in> cfg_identifier ` set (snd (loadProviders example_source)) \<and>
   ''off'' \<notin> cfg_identifier ` set (listEnabled (snd (loadProviders example_source))) \<and>
   list_all cfg_enabled (listEnabled (snd (loadProviders example_source))) \<and>
   sorted_wrt
     (\<lambda>c d. cfg_display_order c < cfg_display_order d \<or>
        (cfg_display_order c = cfg_display_order d \<and> cfg_identifier c \<le> cfg_identifier d))
     (listEnabled (snd (loadProviders example_source)))"
proof -
  note inst = listEnabled_enabled_sorted [of "snd (loadProviders example_source)"]
  have "''off'' \<notin> set (map cfg_identifier (listEnabled (snd (loadProviders example_source))))"
    unfolding example_listEnabled by simp
  then have 1: "''off'' \<notin> cfg_identifier ` set (listEnabled (snd (loadProviders example_source)))"
    by simp
  have "''off'' \<in> set (map cfg_identifier (snd (loadProviders example_source)))"
    by (simp add: example_source_def complete_provider_def empty_provider_def
        validate_provider_def require_field_def)
  then have 2: "''off'' \<in> cfg_identifier ` set (snd (loadProviders example_source))"
    by simp
  from inst [THEN conjunct2, THEN conjunct2, THEN conjunct1]
  have 3: "list_all cfg_enabled (listEnabled (snd (loadProviders example_source)))"
    unfolding list_all_iff .
  from inst [THEN conjunct2, THEN conjunct2, THEN conjunct2] have 4: "sorted_wrt
     (\<lambda>c d. cfg_display_order c < cfg_display_order d \<or>
        (cfg_display_order c = cfg_display_order d \<and> cfg_identifier c \<le> cfg_identifier d))
     (listEnabled (snd (loadProviders example_source)))" .
  from example_listEnabled 2 1 3 4 show ?thesis by (intro conjI)
qed

section \<open>Properties of user provisioning\<close>

text \<open>
  Claim C7. For a provider that does not provision automatically and a mapped identity
  that matches no user of the store, \<open>resolveUser\<close> fails with \<open>ProvisioningDisabled\<close> and
  the user store is what it was: no user is created.
\<close>

theorem resolveUser_provisioning_disabled:
  assumes "find (\<lambda>c. cfg_identifier c = provider_id) registry = Some cfg"
    and "\<not> cfg_auto_provision cfg"
    and "\<forall>u \<in> set store.
      \<not> user_matches policy provider_id (cfg_username_prefix cfg @ ud_username mapped) u"
  shows "resolveUser registry policy provider_id mapped store = (Inl ProvisioningDisabled, store)"
proof -
  from assms(3)
  have "find (user_matches policy provider_id (cfg_username_prefix cfg @ ud_username mapped)) store
      = None"
    by (simp add: find_None_iff)
  with assms(1,2) show ?thesis
    by (simp add: resolveUser_def Let_def)
qed

theorem resolveUser_provisioning_disabled_witness:
  "resolveUser (snd (loadProviders example_source)) ByUsername ''beta'' example_identity
     example_store = (Inl ProvisioningDisabled, example_store)"
proof -
  obtain cfg where cfg: "find (\<lambda>c. cfg_identifier c = ''beta'') (snd (loadProviders example_source))
      = Some cfg" and np: "\<not> cfg_auto_provision cfg" and pre: "cfg_username_prefix cfg = []"
    by (simp add: example_source_def complete_provider_def empty_provider_def
        validate_provider_def require_field_def or_default_def)
  have none: "\<forall>u \<in> set example_store.
      \<not> user_matches ByUsername ''beta'' (cfg_username_prefix cfg @ ud_username example_identity) u"
    unfolding pre by (simp add: example_store_def example_identity_def user_matches_def)
  show ?thesis
    by (rule resolveUser_provisioning_disabled [OF cfg np none])
qed

end
